theory Spec2Isabelle
  imports Main "HOL-Library.Word"
begin

section \<open>The Aurora C runtime (src/runtime/c_runtime.c)\<close>

text \<open>
  The runtime is six one-statement wrappers over the host C library: \<open>printf\<close>,
  \<open>fprintf\<close>, \<open>malloc\<close>, \<open>free\<close>, \<open>realloc\<close> and \<open>abort\<close>. The wrappers are
  embedded as functions on an explicit process state; the host functions they call
  are not part of the repository and are modelled after ISO C where ISO C fixes their
  behaviour, and taken as a parameter (\<open>host\<close>) where it does not.
\<close>

subsection \<open>C data\<close>

text \<open>
  A \<open>const char*\<close> argument is \<open>None\<close> for the null pointer and \<open>Some m\<close> for a
  pointer to the memory \<open>m\<close> that starts at the pointer. The string held there is the
  bytes in front of the first NUL byte.
\<close>

type_synonym byte = "8 word"
type_synonym addr = "64 word"
type_synonym size_t = "64 word"
type_synonym c_int = "32 word"
type_synonym c_str = "string option"

definition NUL :: char where
  "NUL = CHR 0x00"

definition bytes_of :: "string \<Rightarrow> string" where
  "bytes_of m = takeWhile (\<lambda>c. c \<noteq> NUL) m"

definition NULL :: addr where
  "NULL = 0"

subsection \<open>The process state\<close>

text \<open>
  The heap holds the live blocks, each under its base address with its contents (the
  length of the contents is the size of the block), and \<open>brk\<close>, a counter that belongs
  to the host allocator. \<open>out\<close> and \<open>err\<close> are the bytes written to the standard output
  and standard error streams so far; \<open>hooks_run\<close> counts the at-exit handlers the
  process has run. The record is extensible: \<open>world.more\<close> stands for every other
  piece of state of the process.
\<close>

record heap =
  blocks :: "addr \<rightharpoonup> byte list"
  brk :: nat

record world =
  out :: string
  err :: string
  mem :: heap
  hooks_run :: nat

datatype signal = SIGABRT | SIGSEGV

text \<open>
  A call either returns a value to its caller in a new state, or the process is
  killed by a signal and the call never returns.
\<close>

datatype ('a, 'z) outcome =
  Returns 'a "'z world_scheme"
| Killed signal "'z world_scheme"

fun world_of :: "('a, 'z) outcome \<Rightarrow> 'z world_scheme" where
  "world_of (Returns v w) = w"
| "world_of (Killed s w) = w"


subsection \<open>The host C library\<close>

text \<open>
  What the host decides: its allocator, the alignment \<open>h_align\<close> it gives every
  block, and what its formatted output does with a null pointer under \<open>%s\<close>. ISO C
  leaves the latter undefined; \<open>h_null_s\<close> is \<open>Some t\<close> on a host that prints the
  text \<open>t\<close> (glibc prints \<open>(null)\<close>) and \<open>None\<close> on a host where the call faults.
  The allocator works on the heap alone. A call of it with a pointer that is neither
  null nor a live block has no defined behaviour in C; here it yields whatever the
  host's function yields.
\<close>

record host =
  h_malloc :: "size_t \<Rightarrow> heap \<Rightarrow> addr \<times> heap"
  h_free :: "addr \<Rightarrow> heap \<Rightarrow> heap"
  h_realloc :: "addr \<Rightarrow> size_t \<Rightarrow> heap \<Rightarrow> addr \<times> heap"
  h_align :: nat
  h_null_s :: "string option"

text \<open>Decimal digits of \<open>%d\<close>.\<close>

definition digit :: "nat \<Rightarrow> char" where
  "digit n = ''0123456789'' ! (n mod 10)"

function dec_nat :: "nat \<Rightarrow> string" where
  "dec_nat n = (if n < 10 then [digit n] else dec_nat (n div 10) @ [digit n])"
  by pat_completeness auto
termination
  by (relation "measure id") auto

declare dec_nat.simps [simp del]

definition dec_int :: "int \<Rightarrow> string" where
  "dec_int i = (if i < 0 then CHR ''-'' # dec_nat (nat (- i)) else dec_nat (nat i))"

text \<open>
  The variadic arguments of a formatted-output call, and the conversions the runtime's
  format strings use: \<open>%s\<close>, \<open>%d\<close> and ordinary characters (\<open>%%\<close> for completeness).
  The result is \<open>None\<close> where ISO C gives the call no defined behaviour: an unknown
  conversion, a missing or wrongly typed argument, or a null pointer under \<open>%s\<close> on a
  host that faults there.
\<close>

datatype c_arg = ArgStr c_str | ArgInt c_int

fun format :: "string option \<Rightarrow> string \<Rightarrow> c_arg list \<Rightarrow> string option" where
  "format nul [] args = Some []"
| "format nul [c] args = (if c = CHR ''%'' then None else Some [c])"
| "format nul (c # d # fmt) args =
     (if c \<noteq> CHR ''%'' then map_option (Cons c) (format nul (d # fmt) args)
      else if d = CHR ''%'' then map_option (Cons d) (format nul fmt args)
      else if d = CHR ''s'' then
        (case args of
           ArgStr p # rest \<Rightarrow>
             (case (case p of None \<Rightarrow> nul | Some m \<Rightarrow> Some (bytes_of m)) of
                None \<Rightarrow> None
              | Some t \<Rightarrow> map_option (append t) (format nul fmt rest))
         | _ \<Rightarrow> None)
      else if d = CHR ''d'' then
        (case args of
           ArgInt i # rest \<Rightarrow> map_option (append (dec_int (sint i))) (format nul fmt rest)
         | _ \<Rightarrow> None)
      else None)"

datatype stream = Stdout | Stderr

fun put :: "stream \<Rightarrow> string \<Rightarrow> 'z world_scheme \<Rightarrow> 'z world_scheme" where
  "put Stdout bs w = w\<lparr>out := out w @ bs\<rparr>"
| "put Stderr bs w = w\<lparr>err := err w @ bs\<rparr>"

text \<open>
  \<open>fprintf\<close> appends the formatted bytes to the stream and returns. A stream is the
  sequence of bytes written to it: buffering and write errors of the file behind it are
  not modelled, nor is the return value of the call (a count that every caller in the
  runtime discards). Where the call has no defined behaviour the process faults with
  nothing written.
\<close>

definition c_fprintf ::
  "host \<Rightarrow> stream \<Rightarrow> string \<Rightarrow> c_arg list \<Rightarrow> 'z world_scheme \<Rightarrow> (unit, 'z) outcome" where
  "c_fprintf h st fmt args w =
     (case format (h_null_s h) fmt args of
        None \<Rightarrow> Killed SIGSEGV w
      | Some bs \<Rightarrow> Returns () (put st bs w))"

definition c_printf ::
  "host \<Rightarrow> string \<Rightarrow> c_arg list \<Rightarrow> 'z world_scheme \<Rightarrow> (unit, 'z) outcome" where
  "c_printf h fmt args w = c_fprintf h Stdout fmt args w"

text \<open>
  \<open>abort\<close> raises SIGABRT: the process is killed, the call does not return, and no
  at-exit handler runs (ISO C 7.22.4.1). A program that catches SIGABRT is not
  modelled.
\<close>

definition c_abort :: "'z world_scheme \<Rightarrow> ('a, 'z) outcome" where
  "c_abort w = Killed SIGABRT w"

definition c_malloc :: "host \<Rightarrow> size_t \<Rightarrow> 'z world_scheme \<Rightarrow> (addr, 'z) outcome" where
  "c_malloc h n w = (case h_malloc h n (mem w) of (p, m') \<Rightarrow> Returns p (w\<lparr>mem := m'\<rparr>))"

definition c_free :: "host \<Rightarrow> addr \<Rightarrow> 'z world_scheme \<Rightarrow> (unit, 'z) outcome" where
  "c_free h p w = Returns () (w\<lparr>mem := h_free h p (mem w)\<rparr>)"

definition c_realloc :: "host \<Rightarrow> addr \<Rightarrow> size_t \<Rightarrow> 'z world_scheme \<Rightarrow> (addr, 'z) outcome" where
  "c_realloc h p n w =
     (case h_realloc h p n (mem w) of (q, m') \<Rightarrow> Returns q (w\<lparr>mem := m'\<rparr>))"

subsection \<open>The runtime's entry points\<close>

text \<open>\<open>void aurora_println(const char* str) { if (str) { printf("%s\n", str); } }\<close>\<close>

definition aurora_println :: "host \<Rightarrow> c_str \<Rightarrow> 'z world_scheme \<Rightarrow> (unit, 'z) outcome" where
  "aurora_println h str w =
     (if str \<noteq> None then c_printf h ''%s\<newline>'' [ArgStr str] w else Returns () w)"

text \<open>\<open>void aurora_print(const char* str) { if (str) { printf("%s", str); } }\<close>\<close>

definition aurora_print :: "host \<Rightarrow> c_str \<Rightarrow> 'z world_scheme \<Rightarrow> (unit, 'z) outcome" where
  "aurora_print h str w =
     (if str \<noteq> None then c_printf h ''%s'' [ArgStr str] w else Returns () w)"

text \<open>\<open>void* aurora_alloc(size_t size) { return malloc(size); }\<close>\<close>

definition aurora_alloc :: "host \<Rightarrow> size_t \<Rightarrow> 'z world_scheme \<Rightarrow> (addr, 'z) outcome" where
  "aurora_alloc h sz w = c_malloc h sz w"

text \<open>\<open>void aurora_free(void* ptr) { free(ptr); }\<close>\<close>

definition aurora_free :: "host \<Rightarrow> addr \<Rightarrow> 'z world_scheme \<Rightarrow> (unit, 'z) outcome" where
  "aurora_free h ptr w = c_free h ptr w"

text \<open>\<open>void* aurora_realloc(void* ptr, size_t size) { return realloc(ptr, size); }\<close>\<close>

definition aurora_realloc ::
  "host \<Rightarrow> addr \<Rightarrow> size_t \<Rightarrow> 'z world_scheme \<Rightarrow> (addr, 'z) outcome" where
  "aurora_realloc h ptr sz w = c_realloc h ptr sz w"

text \<open>
  \<open>void aurora_panic(const char* msg, const char* file, int line) {
     fprintf(stderr, "Aurora panic at %s:%d: %s\n", file, line, msg); abort(); }\<close>
\<close>

definition aurora_panic ::
  "host \<Rightarrow> c_str \<Rightarrow> c_str \<Rightarrow> c_int \<Rightarrow> 'z world_scheme \<Rightarrow> (unit, 'z) outcome" where
  "aurora_panic h msg file line w =
     (case c_fprintf h Stderr ''Aurora panic at %s:%d: %s\<newline>''
             [ArgStr file, ArgInt line, ArgStr msg] w of
        Returns u w' \<Rightarrow> c_abort w'
      | Killed s w' \<Rightarrow> Killed s w')"

subsection \<open>The caller's memory accesses\<close>

text \<open>
  A compiled program reads and writes the bytes of a block through the pointer it was
  given, at an offset inside the block. An access outside a live block has no defined
  behaviour (\<open>None\<close>).
\<close>

definition load :: "heap \<Rightarrow> addr \<Rightarrow> nat \<Rightarrow> byte option" where
  "load m p i =
     (case blocks m p of
        None \<Rightarrow> None
      | Some bs \<Rightarrow> if i < length bs then Some (bs ! i) else None)"

definition store :: "heap \<Rightarrow> addr \<Rightarrow> nat \<Rightarrow> byte \<Rightarrow> heap option" where
  "store m p i b =
     (case blocks m p of
        None \<Rightarrow> None
      | Some bs \<Rightarrow>
          if i < length bs then Some (m\<lparr>blocks := (blocks m)(p \<mapsto> bs[i := b])\<rparr>) else None)"

text \<open>Writing the bytes \<open>bs\<close> at offsets \<open>i\<close>, \<open>i + 1\<close>, ... and reading \<open>n\<close> bytes from offset \<open>i\<close>.\<close>

fun store_bytes :: "heap \<Rightarrow> addr \<Rightarrow> nat \<Rightarrow> byte list \<Rightarrow> heap option" where
  "store_bytes m p i [] = Some m"
| "store_bytes m p i (b # bs) =
     (case store m p i b of
        None \<Rightarrow> None
      | Some m' \<Rightarrow> store_bytes m' p (Suc i) bs)"

fun load_bytes :: "heap \<Rightarrow> addr \<Rightarrow> nat \<Rightarrow> nat \<Rightarrow> byte list option" where
  "load_bytes m p i 0 = Some []"
| "load_bytes m p i (Suc n) =
     (case load m p i of
        None \<Rightarrow> None
      | Some b \<Rightarrow> map_option (Cons b) (load_bytes m p (Suc i) n))"

subsection \<open>The C heap contract (ISO C 7.22.3)\<close>

text \<open>
  Modelled from the spec: the host heap, that is \<open>malloc\<close>, \<open>free\<close> and \<open>realloc\<close> of
  the C library, which the repository calls and does not contain. The three predicates
  below state the contract the specification's table of heap primitives gives them,
  which is that of ISO C; a host is a model of the C library when it satisfies them.

  \<open>malloc\<close> returns the null pointer and leaves the live blocks as they are, or returns
  the address of a new block: not null, not the address of a live block, aligned, of at
  least the size asked for, with every other block as it was.
\<close>

definition malloc_ok :: "host \<Rightarrow> bool" where
  "malloc_ok h =
     (\<forall>n m. case h_malloc h n m of
        (p, m') \<Rightarrow>
          (p = NULL \<and> blocks m' = blocks m) \<or>
          (p \<noteq> NULL \<and> blocks m p = None \<and> unat p mod h_align h = 0 \<and>
           (\<exists>bs. unat n \<le> length bs \<and> blocks m' = (blocks m)(p \<mapsto> bs))))"

text \<open>
  Modelled from the spec: the contract of the host's \<open>free\<close>.
  \<open>free\<close> of the null pointer does nothing; \<open>free\<close> of a live block removes that block
  and no other. Any other pointer has no defined behaviour.
\<close>

definition free_ok :: "host \<Rightarrow> bool" where
  "free_ok h =
     (\<forall>p m. (p = NULL \<longrightarrow> h_free h p m = m) \<and>
            (p \<noteq> NULL \<and> blocks m p \<noteq> None \<longrightarrow>
               blocks (h_free h p m) = (blocks m)(p := None)))"

text \<open>
  Modelled from the spec: the contract of the host's \<open>realloc\<close>.
  \<open>realloc\<close> of the null pointer is \<open>malloc\<close>. \<open>realloc\<close> of a live block of contents
  \<open>old\<close> returns the null pointer and leaves the blocks as they are (for size zero it
  may free the block instead), or replaces the block by one at the address returned
  (the old address or a new one) that agrees with \<open>old\<close> up to the smaller of the two
  sizes.
\<close>

definition realloc_ok :: "host \<Rightarrow> bool" where
  "realloc_ok h =
     (\<forall>p n m.
        (p = NULL \<longrightarrow> h_realloc h p n m = h_malloc h n m) \<and>
        (\<forall>old. p \<noteq> NULL \<and> blocks m p = Some old \<longrightarrow>
           (case h_realloc h p n m of
              (q, m') \<Rightarrow>
                (q = NULL \<and>
                 (blocks m' = blocks m \<or> (n = 0 \<and> blocks m' = (blocks m)(p := None)))) \<or>
                (q \<noteq> NULL \<and> (q = p \<or> blocks m q = None) \<and> unat q mod h_align h = 0 \<and>
                 (\<exists>bs. unat n \<le> length bs \<and>
                       take (min (length old) (unat n)) bs = take (min (length old) (unat n)) old \<and>
                       blocks m' = ((blocks m)(p := None))(q \<mapsto> bs))))))"

definition heap_ok :: "host \<Rightarrow> bool" where
  "heap_ok h = (malloc_ok h \<and> free_ok h \<and> realloc_ok h)"

text \<open>
  Modelled from the spec: what the host's \<open>fprintf\<close>, which the repository calls and
  does not contain, prints for a null pointer under \<open>%s\<close>. The specification's words:
  a null argument string appears as the literal text \<open>(null)\<close> in its position.
\<close>

definition fprintf_null_ok :: "host \<Rightarrow> bool" where
  "fprintf_null_ok h = (h_null_s h = Some ''(null)'')"

subsection \<open>A reference host\<close>

text \<open>
  A host to run the runtime on: a bump allocator over 64 KiB that hands out 16-byte
  aligned blocks filled with zero bytes and never reuses an address, and a formatted
  output that prints \<open>(null)\<close> for a null pointer, as glibc does.
\<close>

definition ref_limit :: nat where
  "ref_limit = 65536"

definition ref_malloc :: "size_t \<Rightarrow> heap \<Rightarrow> addr \<times> heap" where
  "ref_malloc n m =
     (let base = 16 * (brk m + 1); p = (of_nat base :: addr) in
      if base + unat n \<le> ref_limit \<and> blocks m p = None
      then (p, \<lparr>blocks = (blocks m)(p \<mapsto> replicate (unat n) 0),
                brk = brk m + 1 + unat n div 16\<rparr>)
      else (NULL, m))"

definition ref_free :: "addr \<Rightarrow> heap \<Rightarrow> heap" where
  "ref_free p m = (if p = NULL then m else m\<lparr>blocks := (blocks m)(p := None)\<rparr>)"

definition ref_realloc :: "addr \<Rightarrow> size_t \<Rightarrow> heap \<Rightarrow> addr \<times> heap" where
  "ref_realloc p n m =
     (if p = NULL then ref_malloc n m
      else case blocks m p of
        None \<Rightarrow> (NULL, m)
      | Some old \<Rightarrow>
          (case ref_malloc n m of
             (q, m1) \<Rightarrow>
               if q = NULL then (NULL, m)
               else (q, m1\<lparr>blocks := ((blocks m1)(p := None))
                       (q \<mapsto> take (unat n) old @ replicate (unat n - length old) 0)\<rparr>)))"

definition ref_host :: host where
  "ref_host = \<lparr>h_malloc = ref_malloc, h_free = ref_free, h_realloc = ref_realloc,
               h_align = 16, h_null_s = Some ''(null)''\<rparr>"

text \<open>The same host with a formatted output that faults on a null pointer under \<open>%s\<close>.\<close>

definition strict_host :: host where
  "strict_host = ref_host\<lparr>h_null_s := None\<rparr>"

text \<open>The same host with a \<open>malloc\<close> that answers size zero with the null pointer.\<close>

definition null0_host :: host where
  "null0_host =
     ref_host\<lparr>h_malloc := \<lambda>n m. if n = 0 then (NULL, m) else ref_malloc n m\<rparr>"

definition heap0 :: heap where
  "heap0 = \<lparr>blocks = Map.empty, brk = 0\<rparr>"

definition world0 :: world where
  "world0 = \<lparr>out = [], err = [], mem = heap0, hooks_run = 0\<rparr>"

subsection \<open>Programs over the runtime\<close>

text \<open>
  What a compiled program does between two of its reads: calls of the runtime's entry
  points that return, and writes of its own. A step is \<open>None\<close> when the process is
  killed or the step has no defined behaviour (a pointer given to \<open>free\<close> or
  \<open>realloc\<close> that is neither null nor a live block, a write outside a live block).
\<close>

datatype call =
  Println c_str
| Print c_str
| Alloc size_t
| Free addr
| Realloc addr size_t
| Poke addr nat byte

fun kept :: "('a, 'z) outcome \<Rightarrow> 'z world_scheme option" where
  "kept (Returns v w) = Some w"
| "kept (Killed s w) = None"

fun do_call :: "host \<Rightarrow> call \<Rightarrow> 'z world_scheme \<Rightarrow> 'z world_scheme option" where
  "do_call h (Println s) w = kept (aurora_println h s w)"
| "do_call h (Print s) w = kept (aurora_print h s w)"
| "do_call h (Alloc n) w = kept (aurora_alloc h n w)"
| "do_call h (Free q) w =
     (if q = NULL \<or> blocks (mem w) q \<noteq> None then kept (aurora_free h q w) else None)"
| "do_call h (Realloc q n) w =
     (if q = NULL \<or> blocks (mem w) q \<noteq> None then kept (aurora_realloc h q n w) else None)"
| "do_call h (Poke q i b) w =
     (case store (mem w) q i b of None \<Rightarrow> None | Some m' \<Rightarrow> Some (w\<lparr>mem := m'\<rparr>))"

fun run :: "host \<Rightarrow> call list \<Rightarrow> 'z world_scheme \<Rightarrow> 'z world_scheme option" where
  "run h [] w = Some w"
| "run h (c # cs) w = (case do_call h c w of None \<Rightarrow> None | Some w' \<Rightarrow> run h cs w')"

text \<open>The steps that free, resize or overwrite the block at \<open>p\<close>.\<close>

fun touches :: "addr \<Rightarrow> call \<Rightarrow> bool" where
  "touches p (Free q) = (q = p)"
| "touches p (Realloc q n) = (q = p)"
| "touches p (Poke q i b) = (q = p)"
| "touches p c = False"

text \<open>The bytes a call appended to standard output and to standard error.\<close>

definition emitted :: "'z world_scheme \<Rightarrow> ('a, 'y) outcome \<Rightarrow> string \<times> string" where
  "emitted w r =
     (drop (length (out w)) (out (world_of r)), drop (length (err w)) (err (world_of r)))"

text \<open>
  The outcome of a call with the rest of the process state (\<open>world.more\<close>) replaced,
  what a call gave back (its return value, or the signal that killed the process), and
  when two string arguments are the same argument value: both null, or both pointers to
  the same bytes.
\<close>

fun with_rest :: "'z \<Rightarrow> ('a, 'z) outcome \<Rightarrow> ('a, 'z) outcome" where
  "with_rest z (Returns v w) = Returns v (world.more_update (\<lambda>_. z) w)"
| "with_rest z (Killed s w) = Killed s (world.more_update (\<lambda>_. z) w)"

fun result :: "('a, 'z) outcome \<Rightarrow> 'a + signal" where
  "result (Returns v w) = Inl v"
| "result (Killed s w) = Inr s"

definition same_str :: "c_str \<Rightarrow> c_str \<Rightarrow> bool" where
  "same_str a b = (map_option bytes_of a = map_option bytes_of b)"

section \<open>Properties\<close>

subsection \<open>Strings and formatting\<close>

lemma bytes_of_terminated: "NUL \<notin> set s \<Longrightarrow> bytes_of (s @ NUL # rest) = s"
  by (induction s) (auto simp: bytes_of_def)

lemma format_panic:
  "format nul ''Aurora panic at %s:%d: %s\<newline>'' [ArgStr file, ArgInt line, ArgStr msg] =
     (case (case file of None \<Rightarrow> nul | Some m \<Rightarrow> Some (bytes_of m)) of
        None \<Rightarrow> None
      | Some f \<Rightarrow>
          (case (case msg of None \<Rightarrow> nul | Some m \<Rightarrow> Some (bytes_of m)) of
             None \<Rightarrow> None
           | Some t \<Rightarrow>
               Some (''Aurora panic at '' @ f @ '':'' @ dec_int (sint line) @ '': '' @ t @
                     ''\<newline>'')))"
  by (simp split: option.splits)




subsection \<open>Output\<close>



text \<open>
  C4. With the null pointer, \<open>aurora_println\<close> and \<open>aurora_print\<close> return and leave
  the whole process state, both streams included, as it was.
\<close>

theorem null_is_noop:
  "aurora_println h None w = Returns () w \<and> aurora_print h None w = Returns () w"
  by (simp add: aurora_println_def aurora_print_def)

text \<open>Scenario F of the specification.\<close>

theorem null_is_noop_witness:
  "aurora_println ref_host None world0 = Returns () world0 \<and>
   out world0 = [] \<and> err world0 = []"
  using null_is_noop [of ref_host world0]
  by (simp add: world0_def)

subsection \<open>Panic\<close>




text \<open>
  C2. On a host whose formatted output prints \<open>(null)\<close> for a null pointer under
  \<open>%s\<close>, as the specification says of it, a null \<open>msg\<close>, a null \<open>file\<close> or both
  appear as \<open>(null)\<close> in their position of the diagnostic, and the panic proceeds as
  usual: the line is appended to standard error and the process is killed by SIGABRT.
  The runtime itself has no null check here and substitutes nothing: it hands the
  pointers to \<open>fprintf\<close>.
\<close>

theorem panic_null_text:
  fixes h :: host and s rest :: string and line :: c_int and w :: "'z world_scheme"
  assumes "fprintf_null_ok h" and "NUL \<notin> set s"
  defines "p \<equiv> Some (s @ NUL # rest)"
  defines "n \<equiv> dec_int (sint line)"
  shows "aurora_panic h None p line w =
           Killed SIGABRT
             (w\<lparr>err := err w @ ''Aurora panic at '' @ s @ '':'' @ n @ '': (null)\<newline>''\<rparr>) \<and>
         aurora_panic h p None line w =
           Killed SIGABRT
             (w\<lparr>err := err w @ ''Aurora panic at (null):'' @ n @ '': '' @ s @ ''\<newline>''\<rparr>) \<and>
         aurora_panic h None None line w =
           Killed SIGABRT
             (w\<lparr>err := err w @ ''Aurora panic at (null):'' @ n @ '': (null)\<newline>''\<rparr>)"
  using assms(1,2) unfolding p_def n_def
  by (simp add: aurora_panic_def c_fprintf_def c_abort_def format_panic bytes_of_terminated
        fprintf_null_ok_def del: format.simps)

text \<open>A null message and a null file name on the reference host.\<close>

theorem panic_null_text_witness:
  "fprintf_null_ok ref_host \<and> NUL \<notin> set ''x.au'' \<and> NUL \<notin> set ''boom'' \<and>
   aurora_panic ref_host None (Some (''x.au'' @ [NUL])) 42 world0 =
     Killed SIGABRT (world0\<lparr>err := ''Aurora panic at x.au:42: (null)\<newline>''\<rparr>) \<and>
   aurora_panic ref_host (Some (''boom'' @ [NUL])) None 42 world0 =
     Killed SIGABRT (world0\<lparr>err := ''Aurora panic at (null):42: boom\<newline>''\<rparr>)"
proof -
  have n: "fprintf_null_ok ref_host"
    by (simp add: fprintf_null_ok_def ref_host_def)
  have f: "NUL \<notin> set ''x.au''" and b: "NUL \<notin> set ''boom''"
    by (simp_all add: NUL_def)
  have d: "dec_int (sint (42 :: c_int)) = ''42''"
    by (simp add: dec_int_def dec_nat.simps digit_def)
  show ?thesis
    using n f b panic_null_text [OF n f, of "[]" 42 world0]
      panic_null_text [OF n b, of "[]" 42 world0] d
    by (simp add: world0_def)
qed

subsection \<open>The reference host meets the heap contract\<close>

lemma unat_of_nat_addr: "x < 2 ^ 64 \<Longrightarrow> unat (of_nat x :: addr) = x"
  by (simp add: unat_of_nat)

lemma ref_addr:
  assumes "16 * (b + 1) + k \<le> ref_limit"
  shows "unat (of_nat (16 * (b + 1)) :: addr) = 16 * (b + 1)"
    and "(of_nat (16 * (b + 1)) :: addr) \<noteq> NULL"
proof -
  have lt: "16 * (b + 1) < 2 ^ 64"
    using assms by (simp add: ref_limit_def)
  show u: "unat (of_nat (16 * (b + 1)) :: addr) = 16 * (b + 1)"
    using lt by (rule unat_of_nat_addr)
  show "(of_nat (16 * (b + 1)) :: addr) \<noteq> NULL"
  proof
    assume "(of_nat (16 * (b + 1)) :: addr) = NULL"
    then have "unat (of_nat (16 * (b + 1)) :: addr) = 0"
      by (simp add: NULL_def)
    with u show False by simp
  qed
qed

lemma ref_malloc_cases:
  obtains (fail) "ref_malloc n m = (NULL, m)"
  | (ok) p where
      "ref_malloc n m =
         (p, \<lparr>blocks = (blocks m)(p \<mapsto> replicate (unat n) 0),
              brk = brk m + 1 + unat n div 16\<rparr>)"
      "p \<noteq> NULL" "blocks m p = None" "unat p mod 16 = 0"
proof (cases "16 * (brk m + 1) + unat n \<le> ref_limit \<and>
              blocks m (of_nat (16 * (brk m + 1))) = None")
  case True
  then have le: "16 * (brk m + 1) + unat n \<le> ref_limit" by simp
  show ?thesis
  proof (rule ok)
    show "ref_malloc n m =
            (of_nat (16 * (brk m + 1)),
             \<lparr>blocks = (blocks m)(of_nat (16 * (brk m + 1)) \<mapsto> replicate (unat n) 0),
              brk = brk m + 1 + unat n div 16\<rparr>)"
      using True by (simp add: ref_malloc_def Let_def)
    show "(of_nat (16 * (brk m + 1)) :: addr) \<noteq> NULL"
      using ref_addr(2) [OF le] .
    show "blocks m (of_nat (16 * (brk m + 1))) = None"
      using True by simp
    show "unat (of_nat (16 * (brk m + 1)) :: addr) mod 16 = 0"
      using ref_addr(1) [OF le] by simp
  qed
next
  case False
  then have "ref_malloc n m = (NULL, m)"
    by (auto simp: ref_malloc_def Let_def)
  then show ?thesis by (rule fail)
qed

lemma ref_malloc_ok: "malloc_ok ref_host"
  unfolding malloc_ok_def
proof (intro allI)
  fix n m
  show "case h_malloc ref_host n m of
        (p, m') \<Rightarrow>
          (p = NULL \<and> blocks m' = blocks m) \<or>
          (p \<noteq> NULL \<and> blocks m p = None \<and> unat p mod h_align ref_host = 0 \<and>
           (\<exists>bs. unat n \<le> length bs \<and> blocks m' = (blocks m)(p \<mapsto> bs)))"
  proof (cases n m rule: ref_malloc_cases)
    case fail
    then show ?thesis by (simp add: ref_host_def)
  next
    case (ok p)
    then show ?thesis
      by (auto simp: ref_host_def intro!: exI [of _ "replicate (unat n) 0"])
  qed
qed

lemma ref_free_ok: "free_ok ref_host"
  by (simp add: free_ok_def ref_host_def ref_free_def)

lemma ref_realloc_ok: "realloc_ok ref_host"
  unfolding realloc_ok_def
proof (intro allI conjI impI)
  fix p n m
  assume "p = NULL"
  then show "h_realloc ref_host p n m = h_malloc ref_host n m"
    by (simp add: ref_host_def ref_realloc_def)
next
  fix p :: addr and n :: size_t and m :: heap and old :: "byte list"
  assume a: "p \<noteq> NULL \<and> blocks m p = Some old"
  let ?k = "min (length old) (unat n)"
  let ?new = "take (unat n) old @ replicate (unat n - length old) (0 :: byte)"
  have len: "unat n \<le> length ?new" by simp
  have pre: "take ?k ?new = take ?k old" by (simp add: min_def)
  show "case h_realloc ref_host p n m of
          (q, m') \<Rightarrow>
            (q = NULL \<and>
             (blocks m' = blocks m \<or> (n = 0 \<and> blocks m' = (blocks m)(p := None)))) \<or>
            (q \<noteq> NULL \<and> (q = p \<or> blocks m q = None) \<and> unat q mod h_align ref_host = 0 \<and>
             (\<exists>bs. unat n \<le> length bs \<and>
                   take ?k bs = take ?k old \<and>
                   blocks m' = ((blocks m)(p := None))(q \<mapsto> bs)))"
  proof (cases n m rule: ref_malloc_cases)
    case fail
    then show ?thesis using a by (simp add: ref_host_def ref_realloc_def)
  next
    case (ok q)
    have qp: "q \<noteq> p" using ok(3) a by auto
    have r: "h_realloc ref_host p n m =
        (q, \<lparr>blocks = ((blocks m)(p := None))(q \<mapsto> ?new),
             brk = brk m + 1 + unat n div 16\<rparr>)"
      using a ok(1,2) qp by (simp add: ref_host_def ref_realloc_def fun_upd_twist)
    show ?thesis
      unfolding r using ok(2,3,4) len pre
      by (auto simp: ref_host_def intro!: exI [of _ ?new])
  qed
qed

lemma ref_heap_ok: "heap_ok ref_host"
  by (simp add: heap_ok_def ref_malloc_ok ref_free_ok ref_realloc_ok)

subsection \<open>Reading and writing a block\<close>

lemma store_bytes_block:
  "blocks m p = Some bs \<Longrightarrow> i + length data \<le> length bs \<Longrightarrow>
   store_bytes m p i data =
     Some (m\<lparr>blocks := (blocks m)(p \<mapsto> take i bs @ data @ drop (i + length data) bs)\<rparr>)"
proof (induction data arbitrary: m i bs)
  case Nil
  then show ?case by (simp add: map_upd_triv)
next
  case (Cons b data)
  let ?m = "m\<lparr>blocks := (blocks m)(p \<mapsto> bs[i := b])\<rparr>"
  have i: "i < length bs" using Cons.prems(2) by simp
  have s: "store m p i b = Some ?m"
    using Cons.prems(1) i by (simp add: store_def)
  let ?x = "take (Suc i) (bs[i := b]) @ data @ drop (Suc i + length data) (bs[i := b])"
  let ?y = "take i bs @ (b # data) @ drop (i + length (b # data)) bs"
  have ih: "store_bytes ?m p (Suc i) data = Some (?m\<lparr>blocks := (blocks ?m)(p \<mapsto> ?x)\<rparr>)"
    using Cons.prems(2) by (intro Cons.IH) simp_all
  have xy: "?x = ?y"
    using i by (simp add: take_Suc_conv_app_nth)
  have "?m\<lparr>blocks := (blocks ?m)(p \<mapsto> ?x)\<rparr> = m\<lparr>blocks := (blocks m)(p \<mapsto> ?x)\<rparr>"
    by simp
  then have "store_bytes ?m p (Suc i) data = Some (m\<lparr>blocks := (blocks m)(p \<mapsto> ?y)\<rparr>)"
    using ih xy by (simp only:)
  moreover have "store_bytes m p i (b # data) = store_bytes ?m p (Suc i) data"
    using s by simp
  ultimately show ?case
    by (simp only:)
qed

lemma load_bytes_block:
  "blocks m p = Some bs \<Longrightarrow> i + n \<le> length bs \<Longrightarrow>
   load_bytes m p i n = Some (take n (drop i bs))"
proof (induction n arbitrary: i)
  case 0
  then show ?case by simp
next
  case (Suc n)
  have i: "i < length bs" using Suc.prems(2) by simp
  have "load_bytes m p (Suc i) n = Some (take n (drop (Suc i) bs))"
    using Suc.prems by (intro Suc.IH) simp_all
  moreover have "take (Suc n) (drop i bs) = bs ! i # take n (drop (Suc i) bs)"
    using i by (simp add: Cons_nth_drop_Suc [symmetric])
  ultimately show ?case
    using Suc.prems(1) i by (simp add: load_def)
qed

lemma write_then_read:
  assumes "blocks m p = Some bs" and "length data \<le> length bs"
  shows "\<exists>m2. store_bytes m p 0 data = Some m2 \<and>
              load_bytes m2 p 0 (length data) = Some data \<and>
              blocks m2 = (blocks m)(p \<mapsto> data @ drop (length data) bs)"
proof -
  let ?bs2 = "data @ drop (length data) bs"
  let ?m2 = "m\<lparr>blocks := (blocks m)(p \<mapsto> ?bs2)\<rparr>"
  have s: "store_bytes m p 0 data = Some ?m2"
    using store_bytes_block [OF assms(1), of 0 data] assms(2) by simp
  have "load_bytes ?m2 p 0 (length data) = Some (take (length data) (drop 0 ?bs2))"
    by (rule load_bytes_block) (use assms(2) in simp_all)
  then have l: "load_bytes ?m2 p 0 (length data) = Some data"
    by simp
  show ?thesis
    using s l by simp
qed


subsection \<open>Blocks that a call does not name stay as they are\<close>

lemma malloc_okE:
  assumes "malloc_ok h" and "h_malloc h n m = (q, m')"
  obtains (null) "q = NULL" "blocks m' = blocks m"
  | (block) bs where "q \<noteq> NULL" "blocks m q = None" "unat q mod h_align h = 0"
      "unat n \<le> length bs" "blocks m' = (blocks m)(q \<mapsto> bs)"
proof -
  have "(q = NULL \<and> blocks m' = blocks m) \<or>
        (q \<noteq> NULL \<and> blocks m q = None \<and> unat q mod h_align h = 0 \<and>
         (\<exists>bs. unat n \<le> length bs \<and> blocks m' = (blocks m)(q \<mapsto> bs)))"
    using assms(1) [unfolded malloc_ok_def, rule_format, where n=n and m=m] assms(2) by simp
  then show ?thesis
  proof (elim disjE conjE exE)
    assume "q = NULL" and "blocks m' = blocks m"
    then show ?thesis by (rule null)
  next
    fix bs
    assume "q \<noteq> NULL" "blocks m q = None" "unat q mod h_align h = 0"
      "unat n \<le> length bs" "blocks m' = (blocks m)(q \<mapsto> bs)"
    then show ?thesis by (rule block)
  qed
qed

lemma malloc_keeps:
  assumes "malloc_ok h" and "h_malloc h n m = (q, m')" and "blocks m p = Some bs"
  shows "blocks m' p = Some bs"
  using assms(1,2)
proof (cases rule: malloc_okE)
  case null
  then show ?thesis using assms(3) by simp
next
  case (block new)
  then have "q \<noteq> p" using assms(3) by auto
  then show ?thesis using block(5) assms(3) by simp
qed

lemma free_keeps:
  assumes "free_ok h" and "q = NULL \<or> blocks m q \<noteq> None" and "q \<noteq> p"
  shows "blocks (h_free h q m) p = blocks m p"
proof (cases "q = NULL")
  case True
  then have "h_free h q m = m" using assms(1) unfolding free_ok_def by blast
  then show ?thesis by simp
next
  case False
  then have "blocks (h_free h q m) = (blocks m)(q := None)"
    using assms(1,2) unfolding free_ok_def by blast
  then show ?thesis using assms(3) by simp
qed

lemma realloc_okE:
  assumes "realloc_ok h" and "q \<noteq> NULL" and "blocks m q = Some old"
    and "h_realloc h q n m = (r, m')"
  obtains (null) "r = NULL" "blocks m' = blocks m \<or> blocks m' = (blocks m)(q := None)"
  | (block) bs where "r \<noteq> NULL" "r = q \<or> blocks m r = None" "unat r mod h_align h = 0"
      "unat n \<le> length bs"
      "take (min (length old) (unat n)) bs = take (min (length old) (unat n)) old"
      "blocks m' = ((blocks m)(q := None))(r \<mapsto> bs)"
proof -
  have "\<forall>old. q \<noteq> NULL \<and> blocks m q = Some old \<longrightarrow>
           (case h_realloc h q n m of
              (r, m') \<Rightarrow>
                (r = NULL \<and>
                 (blocks m' = blocks m \<or> (n = 0 \<and> blocks m' = (blocks m)(q := None)))) \<or>
                (r \<noteq> NULL \<and> (r = q \<or> blocks m r = None) \<and> unat r mod h_align h = 0 \<and>
                 (\<exists>bs. unat n \<le> length bs \<and>
                       take (min (length old) (unat n)) bs = take (min (length old) (unat n)) old \<and>
                       blocks m' = ((blocks m)(q := None))(r \<mapsto> bs))))"
    using assms(1) [unfolded realloc_ok_def] by simp
  then have "(r = NULL \<and>
              (blocks m' = blocks m \<or> (n = 0 \<and> blocks m' = (blocks m)(q := None)))) \<or>
             (r \<noteq> NULL \<and> (r = q \<or> blocks m r = None) \<and> unat r mod h_align h = 0 \<and>
              (\<exists>bs. unat n \<le> length bs \<and>
                    take (min (length old) (unat n)) bs = take (min (length old) (unat n)) old \<and>
                    blocks m' = ((blocks m)(q := None))(r \<mapsto> bs)))"
    using assms(2,3,4) by simp
  then show ?thesis
  proof (rule disjE)
    assume "r = NULL \<and>
            (blocks m' = blocks m \<or> (n = 0 \<and> blocks m' = (blocks m)(q := None)))"
    then have "r = NULL" and "blocks m' = blocks m \<or> blocks m' = (blocks m)(q := None)"
      by auto
    then show ?thesis by (rule null)
  next
    assume "r \<noteq> NULL \<and> (r = q \<or> blocks m r = None) \<and> unat r mod h_align h = 0 \<and>
            (\<exists>bs. unat n \<le> length bs \<and>
                  take (min (length old) (unat n)) bs = take (min (length old) (unat n)) old \<and>
                  blocks m' = ((blocks m)(q := None))(r \<mapsto> bs))"
    then obtain bs where "r \<noteq> NULL" "r = q \<or> blocks m r = None" "unat r mod h_align h = 0"
      "unat n \<le> length bs"
      "take (min (length old) (unat n)) bs = take (min (length old) (unat n)) old"
      "blocks m' = ((blocks m)(q := None))(r \<mapsto> bs)"
      by auto
    then show ?thesis by (rule block)
  qed
qed

lemma realloc_keeps:
  assumes "heap_ok h" and "q = NULL \<or> blocks m q \<noteq> None" and "q \<noteq> p"
    and "h_realloc h q n m = (r, m')" and "blocks m p = Some bs"
  shows "blocks m' p = Some bs"
proof (cases "q = NULL")
  case True
  then have "h_realloc h q n m = h_malloc h n m"
    using assms(1) unfolding heap_ok_def realloc_ok_def by blast
  then show ?thesis
    using assms(1,4,5) malloc_keeps [of h n m r m' p bs] by (simp add: heap_ok_def)
next
  case False
  then obtain old where old: "blocks m q = Some old"
    using assms(2) by auto
  have rok: "realloc_ok h" using assms(1) by (simp add: heap_ok_def)
  from rok False old assms(4) show ?thesis
  proof (cases rule: realloc_okE)
    case null
    then show ?thesis using assms(3,5) by auto
  next
    case (block new)
    then have "r \<noteq> p" using assms(3,5) by auto
    then show ?thesis using block(6) assms(3,5) by simp
  qed
qed

lemma store_keeps:
  assumes "store m q i b = Some m'" and "q \<noteq> p"
  shows "blocks m' p = blocks m p"
  using assms by (auto simp: store_def split: option.splits if_splits)

lemma printf_mem:
  "kept (c_printf h fmt args w) = Some w' \<Longrightarrow> mem w' = mem w"
  by (auto simp: c_printf_def c_fprintf_def split: option.splits)

lemma do_call_keeps_block:
  assumes ok: "heap_ok h" and live: "blocks (mem w) p = Some bs"
    and nt: "\<not> touches p c" and step: "do_call h c w = Some w'"
  shows "blocks (mem w') p = Some bs"
proof (cases c)
  case (Println s)
  then have "mem w' = mem w"
    using step printf_mem [of h _ _ w w'] by (auto simp: aurora_println_def split: if_splits)
  then show ?thesis using live by simp
next
  case (Print s)
  then have "mem w' = mem w"
    using step printf_mem [of h _ _ w w'] by (auto simp: aurora_print_def split: if_splits)
  then show ?thesis using live by simp
next
  case (Alloc n)
  obtain q m' where hm: "h_malloc h n (mem w) = (q, m')"
    by (cases "h_malloc h n (mem w)")
  then have "mem w' = m'"
    using step Alloc by (auto simp: aurora_alloc_def c_malloc_def)
  moreover have "blocks m' p = Some bs"
    using ok hm live by (intro malloc_keeps [of h n "mem w" q m']) (simp_all add: heap_ok_def)
  ultimately show ?thesis by simp
next
  case (Free q)
  then have d: "q = NULL \<or> blocks (mem w) q \<noteq> None" and qp: "q \<noteq> p"
    using step nt by (auto split: if_splits)
  have "mem w' = h_free h q (mem w)"
    using step Free d by (auto simp: aurora_free_def c_free_def)
  moreover have "blocks (h_free h q (mem w)) p = blocks (mem w) p"
    using ok d qp by (intro free_keeps) (simp_all add: heap_ok_def)
  ultimately show ?thesis using live by simp
next
  case (Realloc q n)
  then have d: "q = NULL \<or> blocks (mem w) q \<noteq> None" and qp: "q \<noteq> p"
    using step nt by (auto split: if_splits)
  obtain r m' where hr: "h_realloc h q n (mem w) = (r, m')"
    by (cases "h_realloc h q n (mem w)")
  then have "mem w' = m'"
    using step Realloc d by (auto simp: aurora_realloc_def c_realloc_def)
  moreover have "blocks m' p = Some bs"
    using ok d qp hr live by (rule realloc_keeps)
  ultimately show ?thesis by simp
next
  case (Poke q i b)
  then have qp: "q \<noteq> p" using nt by simp
  obtain m' where st: "store (mem w) q i b = Some m'" and w': "w' = w\<lparr>mem := m'\<rparr>"
    using step Poke by (auto split: option.splits)
  have "blocks m' p = blocks (mem w) p"
    using st qp by (rule store_keeps)
  then show ?thesis using live w' by simp
qed

lemma run_keeps_block:
  assumes "heap_ok h"
  shows "blocks (mem w) p = Some bs \<Longrightarrow> \<forall>c\<in>set cs. \<not> touches p c \<Longrightarrow>
         run h cs w = Some w' \<Longrightarrow> blocks (mem w') p = Some bs"
proof (induction cs arbitrary: w)
  case Nil
  then show ?case by simp
next
  case (Cons c cs)
  from Cons.prems(3) obtain w1 where s: "do_call h c w = Some w1" and r: "run h cs w1 = Some w'"
    by (auto split: option.splits)
  have "blocks (mem w1) p = Some bs"
    using assms Cons.prems(1) _ s by (rule do_call_keeps_block) (use Cons.prems(2) in simp)
  then show ?case
    using Cons.prems(2) r by (intro Cons.IH) simp_all
qed

subsection \<open>Heap\<close>

text \<open>
  C8. The heap entry points hand their arguments to the host allocator and return its
  answer as it is: \<open>aurora_alloc\<close> returns what the host's \<open>malloc\<close> returns for the same
  size and leaves the heap the host left, \<open>aurora_realloc\<close> likewise for \<open>realloc\<close>, and
  \<open>aurora_free\<close> leaves the heap the host's \<open>free\<close> left for the same pointer; no other
  part of the state changes. This holds for every host, pointer and size; the last two
  conjuncts spell out size zero.
\<close>

theorem heap_pass_through:
  "aurora_alloc h n w =
     Returns (fst (h_malloc h n (mem w))) (w\<lparr>mem := snd (h_malloc h n (mem w))\<rparr>) \<and>
   aurora_realloc h p n w =
     Returns (fst (h_realloc h p n (mem w))) (w\<lparr>mem := snd (h_realloc h p n (mem w))\<rparr>) \<and>
   aurora_free h p w = Returns () (w\<lparr>mem := h_free h p (mem w)\<rparr>) \<and>
   aurora_alloc h 0 w =
     Returns (fst (h_malloc h 0 (mem w))) (w\<lparr>mem := snd (h_malloc h 0 (mem w))\<rparr>) \<and>
   aurora_realloc h p 0 w =
     Returns (fst (h_realloc h p 0 (mem w))) (w\<lparr>mem := snd (h_realloc h p 0 (mem w))\<rparr>)"
  by (simp add: aurora_alloc_def aurora_realloc_def aurora_free_def c_malloc_def c_realloc_def
        c_free_def split: prod.splits)

text \<open>
  Size zero on two hosts: one whose \<open>malloc\<close> answers it with a block of no bytes and
  one whose \<open>malloc\<close> answers it with the null pointer. The runtime returns either
  answer as it is. \<open>aurora_free\<close> of a live block leaves the heap the host's \<open>free\<close>
  leaves: the block is gone.
\<close>

theorem heap_pass_through_witness:
  "aurora_alloc ref_host 0 world0 =
     Returns 16 (world0\<lparr>mem := \<lparr>blocks = [16 \<mapsto> []], brk = 1\<rparr>\<rparr>) \<and>
   aurora_alloc null0_host 0 world0 = Returns NULL world0 \<and>
   aurora_realloc ref_host NULL 0 world0 =
     Returns 16 (world0\<lparr>mem := \<lparr>blocks = [16 \<mapsto> []], brk = 1\<rparr>\<rparr>) \<and>
   aurora_free ref_host 16 (world0\<lparr>mem := \<lparr>blocks = [16 \<mapsto> [1, 2]], brk = 1\<rparr>\<rparr>) =
     Returns () (world0\<lparr>mem := \<lparr>blocks = Map.empty, brk = 1\<rparr>\<rparr>)"
proof -
  let ?w = "world0\<lparr>mem := \<lparr>blocks = [16 \<mapsto> [1, 2]], brk = 1\<rparr>\<rparr>"
  have a: "h_malloc ref_host 0 (mem world0) = (16, \<lparr>blocks = [16 \<mapsto> []], brk = 1\<rparr>)"
    by (simp add: ref_host_def ref_malloc_def world0_def heap0_def ref_limit_def Let_def)
  have b: "h_malloc null0_host 0 (mem world0) = (NULL, mem world0)"
    by (simp add: null0_host_def ref_host_def)
  have c: "h_realloc ref_host NULL 0 (mem world0) = (16, \<lparr>blocks = [16 \<mapsto> []], brk = 1\<rparr>)"
    by (simp add: ref_host_def ref_realloc_def ref_malloc_def world0_def heap0_def ref_limit_def
          Let_def)
  have d: "h_free ref_host 16 (mem ?w) = \<lparr>blocks = Map.empty, brk = 1\<rparr>"
    by (simp add: ref_host_def ref_free_def NULL_def)
  show ?thesis
    using heap_pass_through [of ref_host 0 world0 NULL]
      heap_pass_through [of null0_host 0 world0 NULL]
      heap_pass_through [of ref_host 0 ?w 16] a b c d
    by simp
qed

text \<open>
  C7. On a host that meets the contract of \<open>free\<close> and \<open>realloc\<close>, \<open>aurora_free\<close> of the
  null pointer returns with the process state unchanged, and \<open>aurora_realloc\<close> of the
  null pointer is \<open>aurora_alloc\<close>: same pointer returned, same state after.
\<close>

theorem null_sentinels:
  assumes "free_ok h" and "realloc_ok h"
  shows "aurora_free h NULL w = Returns () w \<and>
         aurora_realloc h NULL n w = aurora_alloc h n w"
  using assms
  by (simp add: aurora_free_def aurora_realloc_def aurora_alloc_def c_free_def c_realloc_def
        c_malloc_def free_ok_def realloc_ok_def)

theorem null_sentinels_witness:
  "free_ok ref_host \<and> realloc_ok ref_host \<and>
   aurora_free ref_host NULL world0 = Returns () world0 \<and>
   aurora_realloc ref_host NULL 16 world0 = aurora_alloc ref_host 16 world0 \<and>
   (\<exists>w'. aurora_alloc ref_host 16 world0 = Returns 16 w')"
proof -
  have a: "\<exists>w'. aurora_alloc ref_host 16 world0 = Returns 16 w'"
    by (simp add: aurora_alloc_def c_malloc_def ref_host_def ref_malloc_def world0_def
          heap0_def ref_limit_def Let_def)
  show ?thesis
    using ref_free_ok ref_realloc_ok a
      null_sentinels [OF ref_free_ok ref_realloc_ok, of world0 16]
    by simp
qed

text \<open>
  C5. On a host whose allocator meets the C heap contract, \<open>aurora_alloc\<close> returns, for
  every size \<open>n\<close> (so for every \<open>n > 0\<close>), either the null pointer or a pointer \<open>p\<close> to
  a new block: \<open>p\<close> was not the address of a live block, it is aligned, the block holds
  at least \<open>n\<close> bytes, and every other block is as it was. Any \<open>n\<close> bytes can be written
  at \<open>p\<close>, and reading \<open>n\<close> bytes at \<open>p\<close> then yields them, at once and after any run of
  further calls of the runtime and writes of the program that do not free, resize or
  overwrite \<open>p\<close>.
\<close>

theorem alloc_block:
  assumes "heap_ok h"
  shows "\<exists>p w'. aurora_alloc h n w = Returns p w' \<and>
     (p = NULL \<or>
       (blocks (mem w) p = None \<and> unat p mod h_align h = 0 \<and>
        (\<exists>bs. blocks (mem w') p = Some bs \<and> unat n \<le> length bs) \<and>
        (\<forall>q. q \<noteq> p \<longrightarrow> blocks (mem w') q = blocks (mem w) q) \<and>
        (\<forall>data. length data = unat n \<longrightarrow>
           (\<exists>m2. store_bytes (mem w') p 0 data = Some m2 \<and>
                 load_bytes m2 p 0 (unat n) = Some data \<and>
                 (\<forall>cs w3. (\<forall>c\<in>set cs. \<not> touches p c) \<and> run h cs (w'\<lparr>mem := m2\<rparr>) = Some w3 \<longrightarrow>
                     load_bytes (mem w3) p 0 (unat n) = Some data)))))"
proof -
  obtain p m' where hm: "h_malloc h n (mem w) = (p, m')"
    by (cases "h_malloc h n (mem w)")
  let ?w' = "w\<lparr>mem := m'\<rparr>"
  have r: "aurora_alloc h n w = Returns p ?w'"
    using hm by (simp add: aurora_alloc_def c_malloc_def)
  have mok: "malloc_ok h" using assms by (simp add: heap_ok_def)
  from mok hm have "p = NULL \<or>
       (blocks (mem w) p = None \<and> unat p mod h_align h = 0 \<and>
        (\<exists>bs. blocks (mem ?w') p = Some bs \<and> unat n \<le> length bs) \<and>
        (\<forall>q. q \<noteq> p \<longrightarrow> blocks (mem ?w') q = blocks (mem w) q) \<and>
        (\<forall>data. length data = unat n \<longrightarrow>
           (\<exists>m2. store_bytes (mem ?w') p 0 data = Some m2 \<and>
                 load_bytes m2 p 0 (unat n) = Some data \<and>
                 (\<forall>cs w3. (\<forall>c\<in>set cs. \<not> touches p c) \<and> run h cs (?w'\<lparr>mem := m2\<rparr>) = Some w3 \<longrightarrow>
                     load_bytes (mem w3) p 0 (unat n) = Some data))))"
  proof (cases rule: malloc_okE)
    case null
    then show ?thesis by simp
  next
    case (block bs)
    have live: "blocks (mem ?w') p = Some bs"
      using block(5) by simp
    have others: "\<forall>q. q \<noteq> p \<longrightarrow> blocks (mem ?w') q = blocks (mem w) q"
      using block(5) by simp
    have rw: "\<exists>m2. store_bytes (mem ?w') p 0 data = Some m2 \<and>
                 load_bytes m2 p 0 (unat n) = Some data \<and>
                 (\<forall>cs w3. (\<forall>c\<in>set cs. \<not> touches p c) \<and> run h cs (?w'\<lparr>mem := m2\<rparr>) = Some w3 \<longrightarrow>
                     load_bytes (mem w3) p 0 (unat n) = Some data)"
      if len: "length data = unat n" for data
    proof -
      from write_then_read [OF live, of data] len block(4)
      obtain m2 where st: "store_bytes (mem ?w') p 0 data = Some m2"
        and ld: "load_bytes m2 p 0 (unat n) = Some data"
        and b2: "blocks m2 = (blocks (mem ?w'))(p \<mapsto> data @ drop (length data) bs)"
        by auto
      have keep: "load_bytes (mem w3) p 0 (unat n) = Some data"
        if nt: "\<forall>c\<in>set cs. \<not> touches p c" and rn: "run h cs (?w'\<lparr>mem := m2\<rparr>) = Some w3"
        for cs w3
      proof -
        have "blocks (mem (?w'\<lparr>mem := m2\<rparr>)) p = Some (data @ drop (length data) bs)"
          using b2 by simp
        from run_keeps_block [OF assms this nt rn]
        have "blocks (mem w3) p = Some (data @ drop (length data) bs)" .
        then have "load_bytes (mem w3) p 0 (unat n) =
                     Some (take (unat n) (drop 0 (data @ drop (length data) bs)))"
          by (rule load_bytes_block) (use len block(4) in simp)
        then show ?thesis using len by simp
      qed
      show ?thesis
        using st ld keep by blast
    qed
    show ?thesis
      using block(2,3,4) live others rw by blast
  qed
  with r have "aurora_alloc h n w = Returns p ?w' \<and>
     (p = NULL \<or>
       (blocks (mem w) p = None \<and> unat p mod h_align h = 0 \<and>
        (\<exists>bs. blocks (mem ?w') p = Some bs \<and> unat n \<le> length bs) \<and>
        (\<forall>q. q \<noteq> p \<longrightarrow> blocks (mem ?w') q = blocks (mem w) q) \<and>
        (\<forall>data. length data = unat n \<longrightarrow>
           (\<exists>m2. store_bytes (mem ?w') p 0 data = Some m2 \<and>
                 load_bytes m2 p 0 (unat n) = Some data \<and>
                 (\<forall>cs w3. (\<forall>c\<in>set cs. \<not> touches p c) \<and> run h cs (?w'\<lparr>mem := m2\<rparr>) = Some w3 \<longrightarrow>
                     load_bytes (mem w3) p 0 (unat n) = Some data)))))"
    by (rule conjI)
  then show ?thesis
    by (intro exI)
qed

text \<open>
  Scenario C of the specification on the reference host: sixteen bytes written and read
  back, also after a print, another allocation and two calls of \<open>aurora_free\<close> on other
  pointers.
\<close>

theorem alloc_block_witness:
  "heap_ok ref_host \<and>
   (\<exists>w' m2 w3.
      aurora_alloc ref_host 16 world0 = Returns 16 w' \<and>
      store_bytes (mem w') 16 0 [0, 1, 2, 3, 4, 5, 6, 7, 8, 9, 10, 11, 12, 13, 14, 15] = Some m2 \<and>
      load_bytes m2 16 0 16 = Some [0, 1, 2, 3, 4, 5, 6, 7, 8, 9, 10, 11, 12, 13, 14, 15] \<and>
      run ref_host [Print (Some ''ab''), Alloc 8, Free 48, Free NULL] (w'\<lparr>mem := m2\<rparr>) = Some w3 \<and>
      load_bytes (mem w3) 16 0 16 = Some [0, 1, 2, 3, 4, 5, 6, 7, 8, 9, 10, 11, 12, 13, 14, 15])"
proof -
  let ?data = "[0, 1, 2, 3, 4, 5, 6, 7, 8, 9, 10, 11, 12, 13, 14, 15] :: byte list"
  let ?cs = "[Print (Some ''ab''), Alloc 8, Free 48, Free NULL]"
  let ?W = "world0\<lparr>mem := \<lparr>blocks = [16 \<mapsto> replicate 16 0], brk = 2\<rparr>\<rparr>"
  have ev: "aurora_alloc ref_host 16 world0 = Returns 16 ?W"
    by (simp add: aurora_alloc_def c_malloc_def ref_host_def ref_malloc_def world0_def
          heap0_def ref_limit_def Let_def)
  obtain p w' where a: "aurora_alloc ref_host 16 world0 = Returns p w'"
    and d: "p = NULL \<or>
       (blocks (mem world0) p = None \<and> unat p mod h_align ref_host = 0 \<and>
        (\<exists>bs. blocks (mem w') p = Some bs \<and> unat (16 :: size_t) \<le> length bs) \<and>
        (\<forall>q. q \<noteq> p \<longrightarrow> blocks (mem w') q = blocks (mem world0) q) \<and>
        (\<forall>data. length data = unat (16 :: size_t) \<longrightarrow>
           (\<exists>m2. store_bytes (mem w') p 0 data = Some m2 \<and>
                 load_bytes m2 p 0 (unat (16 :: size_t)) = Some data \<and>
                 (\<forall>cs w3. (\<forall>c\<in>set cs. \<not> touches p c) \<and>
                     run ref_host cs (w'\<lparr>mem := m2\<rparr>) = Some w3 \<longrightarrow>
                     load_bytes (mem w3) p 0 (unat (16 :: size_t)) = Some data))))"
    using alloc_block [OF ref_heap_ok, of 16 world0] by (elim exE conjE)
  have p: "p = 16" and w': "w' = ?W"
    using a ev by simp_all
  have "p \<noteq> NULL"
    using p by (simp add: NULL_def)
  with d have "\<forall>data. length data = unat (16 :: size_t) \<longrightarrow>
           (\<exists>m2. store_bytes (mem w') p 0 data = Some m2 \<and>
                 load_bytes m2 p 0 (unat (16 :: size_t)) = Some data \<and>
                 (\<forall>cs w3. (\<forall>c\<in>set cs. \<not> touches p c) \<and>
                     run ref_host cs (w'\<lparr>mem := m2\<rparr>) = Some w3 \<longrightarrow>
                     load_bytes (mem w3) p 0 (unat (16 :: size_t)) = Some data))"
    by simp
  then have "\<exists>m2. store_bytes (mem w') p 0 ?data = Some m2 \<and>
                 load_bytes m2 p 0 (unat (16 :: size_t)) = Some ?data \<and>
                 (\<forall>cs w3. (\<forall>c\<in>set cs. \<not> touches p c) \<and>
                     run ref_host cs (w'\<lparr>mem := m2\<rparr>) = Some w3 \<longrightarrow>
                     load_bytes (mem w3) p 0 (unat (16 :: size_t)) = Some ?data)"
    by (elim allE [of _ ?data]) simp
  then obtain m2 where st: "store_bytes (mem w') 16 0 ?data = Some m2"
    and ld: "load_bytes m2 16 0 16 = Some ?data"
    and keep: "\<And>cs w3. (\<forall>c\<in>set cs. \<not> touches 16 c) \<Longrightarrow>
                 run ref_host cs (w'\<lparr>mem := m2\<rparr>) = Some w3 \<Longrightarrow>
                 load_bytes (mem w3) 16 0 16 = Some ?data"
    unfolding p by auto
  have "store_bytes (mem ?W) 16 0 ?data =
          Some ((mem ?W)\<lparr>blocks := (blocks (mem ?W))
                  (16 \<mapsto> take 0 (replicate 16 0) @ ?data @
                          drop (0 + length ?data) (replicate 16 0))\<rparr>)"
    by (rule store_bytes_block) simp_all
  then have m2: "m2 = \<lparr>blocks = [16 \<mapsto> ?data], brk = 2\<rparr>"
    using st unfolding w' by simp
  have "\<exists>w3. run ref_host ?cs (w'\<lparr>mem := m2\<rparr>) = Some w3"
    unfolding w' m2
    by (simp add: aurora_print_def c_printf_def c_fprintf_def aurora_alloc_def c_malloc_def
          aurora_free_def c_free_def ref_host_def ref_malloc_def ref_free_def world0_def
          ref_limit_def Let_def NULL_def)
  then obtain w3 where rn: "run ref_host ?cs (w'\<lparr>mem := m2\<rparr>) = Some w3" ..
  have nt: "\<forall>c\<in>set ?cs. \<not> touches 16 c"
    by (simp add: NULL_def)
  have "load_bytes (mem w3) 16 0 16 = Some ?data"
    using nt rn by (rule keep)
  then show ?thesis
    using ref_heap_ok a st ld rn unfolding p by blast
qed

text \<open>
  C6. On a host whose \<open>realloc\<close> meets the C heap contract, \<open>aurora_realloc\<close> of a live
  block of size \<open>m\<close> (the length of its contents \<open>old\<close>) to size \<open>n\<close> returns, and when
  the pointer \<open>q\<close> it returns is not null, the block at \<open>q\<close> holds at least \<open>n\<close> bytes
  and its first \<open>min m n\<close> bytes are the first \<open>min m n\<close> bytes the block at \<open>p\<close> held
  before the call: reading that many bytes at \<open>p\<close> before and at \<open>q\<close> after gives the
  same values.
\<close>

theorem realloc_keeps_prefix:
  fixes h :: host and p :: addr and n :: size_t and w :: "'z world_scheme"
    and old :: "byte list"
  assumes "realloc_ok h" and "p \<noteq> NULL" and "blocks (mem w) p = Some old"
  defines "k \<equiv> min (length old) (unat n)"
  shows "\<exists>q w'. aurora_realloc h p n w = Returns q w' \<and>
     (q = NULL \<or>
       (\<exists>new. blocks (mem w') q = Some new \<and> unat n \<le> length new \<and>
              take k new = take k old \<and>
              load_bytes (mem w) p 0 k = Some (take k old) \<and>
              load_bytes (mem w') q 0 k = Some (take k old)))"
proof -
  obtain q m' where hr: "h_realloc h p n (mem w) = (q, m')"
    by (cases "h_realloc h p n (mem w)")
  let ?w' = "w\<lparr>mem := m'\<rparr>"
  have r: "aurora_realloc h p n w = Returns q ?w'"
    using hr by (simp add: aurora_realloc_def c_realloc_def)
  have before: "load_bytes (mem w) p 0 k = Some (take k (drop 0 old))"
    using assms(3) by (rule load_bytes_block) (simp add: k_def)
  from assms(1,2,3) hr
  have "q = NULL \<or>
       (\<exists>new. blocks (mem ?w') q = Some new \<and> unat n \<le> length new \<and>
              take k new = take k old \<and>
              load_bytes (mem w) p 0 k = Some (take k old) \<and>
              load_bytes (mem ?w') q 0 k = Some (take k old))"
  proof (cases rule: realloc_okE)
    case null
    then show ?thesis by simp
  next
    case (block new)
    have live: "blocks (mem ?w') q = Some new"
      using block(6) by simp
    have "load_bytes (mem ?w') q 0 k = Some (take k (drop 0 new))"
      using live by (rule load_bytes_block) (use block(4) in \<open>simp add: k_def\<close>)
    then have after: "load_bytes (mem ?w') q 0 k = Some (take k old)"
      using block(5) by (simp add: k_def)
    show ?thesis
      using live block(4,5) before after by (auto simp: k_def)
  qed
  with r have "aurora_realloc h p n w = Returns q ?w' \<and>
     (q = NULL \<or>
       (\<exists>new. blocks (mem ?w') q = Some new \<and> unat n \<le> length new \<and>
              take k new = take k old \<and>
              load_bytes (mem w) p 0 k = Some (take k old) \<and>
              load_bytes (mem ?w') q 0 k = Some (take k old)))"
    by (rule conjI)
  then show ?thesis
    by (intro exI)
qed

text \<open>
  Scenario D of the specification on the reference host: a block of four bytes holding
  \<open>test\<close> is resized to eight bytes and its first four bytes still read \<open>test\<close>.
\<close>

theorem realloc_keeps_prefix_witness:
  "realloc_ok ref_host \<and> (16 :: addr) \<noteq> NULL \<and>
   blocks (mem (world0\<lparr>mem := \<lparr>blocks = [16 \<mapsto> [116, 101, 115, 116]], brk = 1\<rparr>\<rparr>)) 16 =
     Some [116, 101, 115, 116] \<and>
   (\<exists>w'. aurora_realloc ref_host 16 8
            (world0\<lparr>mem := \<lparr>blocks = [16 \<mapsto> [116, 101, 115, 116]], brk = 1\<rparr>\<rparr>) =
            Returns 32 w' \<and>
         load_bytes (mem w') 32 0 4 = Some [116, 101, 115, 116])"
proof -
  let ?test = "[116, 101, 115, 116] :: byte list"
  let ?w = "world0\<lparr>mem := \<lparr>blocks = [16 \<mapsto> ?test], brk = 1\<rparr>\<rparr>"
  have nn: "(16 :: addr) \<noteq> NULL"
    by (simp add: NULL_def)
  have live: "blocks (mem ?w) 16 = Some ?test"
    by simp
  have ev: "\<exists>w'. aurora_realloc ref_host 16 8 ?w = Returns 32 w'"
    by (simp add: aurora_realloc_def c_realloc_def ref_host_def ref_realloc_def ref_malloc_def
          ref_limit_def Let_def NULL_def)
  obtain q w' where a: "aurora_realloc ref_host 16 8 ?w = Returns q w'"
    and d: "q = NULL \<or>
       (\<exists>new. blocks (mem w') q = Some new \<and> unat (8 :: size_t) \<le> length new \<and>
              take (min (length ?test) (unat (8 :: size_t))) new =
                take (min (length ?test) (unat (8 :: size_t))) ?test \<and>
              load_bytes (mem ?w) 16 0 (min (length ?test) (unat (8 :: size_t))) =
                Some (take (min (length ?test) (unat (8 :: size_t))) ?test) \<and>
              load_bytes (mem w') q 0 (min (length ?test) (unat (8 :: size_t))) =
                Some (take (min (length ?test) (unat (8 :: size_t))) ?test))"
    using realloc_keeps_prefix [OF ref_realloc_ok nn live, of 8] by (elim exE conjE)
  have q: "q = 32"
    using a ev by auto
  then have "q \<noteq> NULL"
    by (simp add: NULL_def)
  with d have "load_bytes (mem w') q 0 (min (length ?test) (unat (8 :: size_t))) =
                Some (take (min (length ?test) (unat (8 :: size_t))) ?test)"
    by auto
  moreover have "min (length ?test) (unat (8 :: size_t)) = 4" and "take 4 ?test = ?test"
    by simp_all
  ultimately have "load_bytes (mem w') 32 0 4 = Some ?test"
    unfolding q by (simp only:)
  then show ?thesis
    using ref_realloc_ok nn live a unfolding q by blast
qed

subsection \<open>Frame\<close>

lemma put_rest: "put st bs (world.more_update f w) = world.more_update f (put st bs w)"
  by (cases st) simp_all

lemma fprintf_rest:
  "c_fprintf h st fmt args (world.more_update (\<lambda>_. z) w) = with_rest z (c_fprintf h st fmt args w)"
  by (simp add: c_fprintf_def put_rest split: option.splits)

lemma fprintf_frame:
  "world_of (c_fprintf h Stdout fmt args w) = w\<lparr>out := out (world_of (c_fprintf h Stdout fmt args w))\<rparr>"
  "world_of (c_fprintf h Stderr fmt args w) = w\<lparr>err := err (world_of (c_fprintf h Stderr fmt args w))\<rparr>"
  by (simp_all add: c_fprintf_def split: option.splits)

text \<open>
  C9. The runtime has no state of its own. Each entry point commutes with replacing the
  rest of the process state (everything but the two streams, the heap and the at-exit
  count), so it neither reads nor writes anything there; \<open>aurora_println\<close> and
  \<open>aurora_print\<close> change nothing but standard output, the heap entry points nothing but
  the heap, \<open>aurora_panic\<close> nothing but standard error; and the heap entry points
  append no byte to either stream, whatever the host allocator answers.
\<close>

theorem no_runtime_state:
  fixes w :: "'z world_scheme" and z :: 'z
  defines "sw \<equiv> world.more_update (\<lambda>_. z)"
  shows
   "aurora_println h s (sw w) = with_rest z (aurora_println h s w) \<and>
    aurora_print h s (sw w) = with_rest z (aurora_print h s w) \<and>
    aurora_alloc h n (sw w) = with_rest z (aurora_alloc h n w) \<and>
    aurora_free h p (sw w) = with_rest z (aurora_free h p w) \<and>
    aurora_realloc h p n (sw w) = with_rest z (aurora_realloc h p n w) \<and>
    aurora_panic h msg file line (sw w) = with_rest z (aurora_panic h msg file line w) \<and>
    world_of (aurora_println h s w) = w\<lparr>out := out (world_of (aurora_println h s w))\<rparr> \<and>
    world_of (aurora_print h s w) = w\<lparr>out := out (world_of (aurora_print h s w))\<rparr> \<and>
    world_of (aurora_alloc h n w) = w\<lparr>mem := mem (world_of (aurora_alloc h n w))\<rparr> \<and>
    world_of (aurora_free h p w) = w\<lparr>mem := mem (world_of (aurora_free h p w))\<rparr> \<and>
    world_of (aurora_realloc h p n w) = w\<lparr>mem := mem (world_of (aurora_realloc h p n w))\<rparr> \<and>
    world_of (aurora_panic h msg file line w) =
      w\<lparr>err := err (world_of (aurora_panic h msg file line w))\<rparr> \<and>
    emitted w (aurora_alloc h n w) = ([], []) \<and>
    emitted w (aurora_free h p w) = ([], []) \<and>
    emitted w (aurora_realloc h p n w) = ([], [])"
proof -
  have 1: "aurora_println h s (sw w) = with_rest z (aurora_println h s w)"
    and 2: "aurora_print h s (sw w) = with_rest z (aurora_print h s w)"
    unfolding sw_def by (simp_all add: aurora_println_def aurora_print_def c_printf_def fprintf_rest)
  have 3: "aurora_alloc h n (sw w) = with_rest z (aurora_alloc h n w)"
    and 4: "aurora_free h p (sw w) = with_rest z (aurora_free h p w)"
    and 5: "aurora_realloc h p n (sw w) = with_rest z (aurora_realloc h p n w)"
    unfolding sw_def
    by (simp_all add: aurora_alloc_def aurora_free_def aurora_realloc_def c_malloc_def c_free_def
          c_realloc_def split: prod.splits)
  have 6: "aurora_panic h msg file line (sw w) = with_rest z (aurora_panic h msg file line w)"
    unfolding sw_def
    by (simp add: aurora_panic_def fprintf_rest c_abort_def split: outcome.splits)
  have 7: "world_of (aurora_println h s w) = w\<lparr>out := out (world_of (aurora_println h s w))\<rparr>"
    and 8: "world_of (aurora_print h s w) = w\<lparr>out := out (world_of (aurora_print h s w))\<rparr>"
    using fprintf_frame(1) [of h _ _ w]
    by (simp_all add: aurora_println_def aurora_print_def c_printf_def)
  have 9: "world_of (aurora_alloc h n w) = w\<lparr>mem := mem (world_of (aurora_alloc h n w))\<rparr>"
    and 10: "world_of (aurora_free h p w) = w\<lparr>mem := mem (world_of (aurora_free h p w))\<rparr>"
    and 11: "world_of (aurora_realloc h p n w) = w\<lparr>mem := mem (world_of (aurora_realloc h p n w))\<rparr>"
    by (simp_all add: aurora_alloc_def aurora_free_def aurora_realloc_def c_malloc_def c_free_def
          c_realloc_def split: prod.splits)
  have 12: "world_of (aurora_panic h msg file line w) =
      w\<lparr>err := err (world_of (aurora_panic h msg file line w))\<rparr>"
    by (simp add: aurora_panic_def c_fprintf_def c_abort_def split: option.splits)
  have 13: "emitted w (aurora_alloc h n w) = ([], [])"
    and 14: "emitted w (aurora_free h p w) = ([], [])"
    and 15: "emitted w (aurora_realloc h p n w) = ([], [])"
    by (simp_all add: emitted_def aurora_alloc_def aurora_free_def aurora_realloc_def c_malloc_def
          c_free_def c_realloc_def split: prod.splits)
  show ?thesis
    using 1 2 3 4 5 6 7 8 9 10 11 12 13 14 15 by (simp only: simp_thms)
qed

subsection \<open>Determinism\<close>

lemma println_obs:
  "result (aurora_println h s w) = Inl () \<and>
   emitted w (aurora_println h s w) =
     (case map_option bytes_of s of None \<Rightarrow> [] | Some t \<Rightarrow> t @ ''\<newline>'', [])"
  by (cases s) (simp_all add: aurora_println_def c_printf_def c_fprintf_def emitted_def)

lemma print_obs:
  "result (aurora_print h s w) = Inl () \<and>
   emitted w (aurora_print h s w) =
     (case map_option bytes_of s of None \<Rightarrow> [] | Some t \<Rightarrow> t, [])"
  by (cases s) (simp_all add: aurora_print_def c_printf_def c_fprintf_def emitted_def)

lemma str_arg_cong:
  "same_str a b \<Longrightarrow>
   (case a of None \<Rightarrow> nul | Some m \<Rightarrow> Some (bytes_of m)) =
   (case b of None \<Rightarrow> nul | Some m \<Rightarrow> Some (bytes_of m))"
  by (cases a; cases b) (simp_all add: same_str_def)

lemma format_panic_cong:
  assumes "same_str msg1 msg2" and "same_str file1 file2"
  shows "format nul ''Aurora panic at %s:%d: %s\<newline>'' [ArgStr file1, ArgInt line, ArgStr msg1] =
         format nul ''Aurora panic at %s:%d: %s\<newline>'' [ArgStr file2, ArgInt line, ArgStr msg2]"
  unfolding format_panic
  using str_arg_cong [OF assms(1), of nul] str_arg_cong [OF assms(2), of nul]
  by (simp only:)

lemma panic_unfold:
  "aurora_panic h msg fl line w =
     (case format (h_null_s h) ''Aurora panic at %s:%d: %s\<newline>''
             [ArgStr fl, ArgInt line, ArgStr msg] of
        None \<Rightarrow> Killed SIGSEGV w
      | Some bs \<Rightarrow> Killed SIGABRT (w\<lparr>err := err w @ bs\<rparr>))"
  by (simp add: aurora_panic_def c_fprintf_def c_abort_def del: format.simps split: option.splits)

lemma panic_obs_cong:
  assumes "same_str msg1 msg2" and "same_str file1 file2"
  shows "result (aurora_panic h msg1 file1 line w1) = result (aurora_panic h msg2 file2 line w2) \<and>
         emitted w1 (aurora_panic h msg1 file1 line w1) =
           emitted w2 (aurora_panic h msg2 file2 line w2)"
  unfolding panic_unfold format_panic_cong [OF assms]
  by (simp add: emitted_def del: format.simps split: option.splits)

lemma heap_obs_cong:
  assumes "mem w1 = mem w2"
  shows "result (aurora_alloc h n w1) = result (aurora_alloc h n w2) \<and>
         mem (world_of (aurora_alloc h n w1)) = mem (world_of (aurora_alloc h n w2)) \<and>
         result (aurora_free h p w1) = result (aurora_free h p w2) \<and>
         mem (world_of (aurora_free h p w1)) = mem (world_of (aurora_free h p w2)) \<and>
         result (aurora_realloc h p n w1) = result (aurora_realloc h p n w2) \<and>
         mem (world_of (aurora_realloc h p n w1)) = mem (world_of (aurora_realloc h p n w2))"
  using assms
  by (simp add: aurora_alloc_def aurora_free_def aurora_realloc_def c_malloc_def c_free_def
        c_realloc_def split: prod.splits)

text \<open>
  C10. What an entry point gives back and what it appends to the streams is a function
  of its argument values and of the host state it works on, and of nothing else.
  \<open>aurora_println\<close> and \<open>aurora_print\<close>: two calls on strings with the same bytes (the
  memory behind the terminator, the host and the state may differ) return alike and
  append the same bytes. The heap entry points: two calls with the same arguments on the
  same host and the same heap return the same pointer, leave the same heap and append
  nothing, whatever else differs. \<open>aurora_panic\<close>: two calls on the same host with the
  same line number and strings of the same bytes end alike and append the same bytes.
\<close>

theorem runtime_deterministic:
  fixes w1 :: "'z world_scheme" and w2 :: "'y world_scheme"
  shows
   "(same_str s1 s2 \<longrightarrow>
       result (aurora_println h1 s1 w1) = result (aurora_println h2 s2 w2) \<and>
       emitted w1 (aurora_println h1 s1 w1) = emitted w2 (aurora_println h2 s2 w2) \<and>
       result (aurora_print h1 s1 w1) = result (aurora_print h2 s2 w2) \<and>
       emitted w1 (aurora_print h1 s1 w1) = emitted w2 (aurora_print h2 s2 w2)) \<and>
    (mem w1 = mem w2 \<longrightarrow>
       result (aurora_alloc h n w1) = result (aurora_alloc h n w2) \<and>
       mem (world_of (aurora_alloc h n w1)) = mem (world_of (aurora_alloc h n w2)) \<and>
       emitted w1 (aurora_alloc h n w1) = emitted w2 (aurora_alloc h n w2) \<and>
       result (aurora_free h p w1) = result (aurora_free h p w2) \<and>
       mem (world_of (aurora_free h p w1)) = mem (world_of (aurora_free h p w2)) \<and>
       emitted w1 (aurora_free h p w1) = emitted w2 (aurora_free h p w2) \<and>
       result (aurora_realloc h p n w1) = result (aurora_realloc h p n w2) \<and>
       mem (world_of (aurora_realloc h p n w1)) = mem (world_of (aurora_realloc h p n w2)) \<and>
       emitted w1 (aurora_realloc h p n w1) = emitted w2 (aurora_realloc h p n w2)) \<and>
    (same_str msg1 msg2 \<and> same_str file1 file2 \<longrightarrow>
       result (aurora_panic h msg1 file1 line w1) = result (aurora_panic h msg2 file2 line w2) \<and>
       emitted w1 (aurora_panic h msg1 file1 line w1) =
         emitted w2 (aurora_panic h msg2 file2 line w2))"
proof (intro conjI impI)
  assume "same_str s1 s2"
  then have e: "map_option bytes_of s1 = map_option bytes_of s2"
    by (simp add: same_str_def)
  show "result (aurora_println h1 s1 w1) = result (aurora_println h2 s2 w2)"
    and "result (aurora_print h1 s1 w1) = result (aurora_print h2 s2 w2)"
    by (simp_all add: println_obs print_obs)
  show "emitted w1 (aurora_println h1 s1 w1) = emitted w2 (aurora_println h2 s2 w2)"
    and "emitted w1 (aurora_print h1 s1 w1) = emitted w2 (aurora_print h2 s2 w2)"
    using e by (simp_all add: println_obs print_obs)
next
  assume m: "mem w1 = mem w2"
  note c = heap_obs_cong [OF m, of h n p]
  show "result (aurora_alloc h n w1) = result (aurora_alloc h n w2)"
    and "mem (world_of (aurora_alloc h n w1)) = mem (world_of (aurora_alloc h n w2))"
    and "result (aurora_free h p w1) = result (aurora_free h p w2)"
    and "mem (world_of (aurora_free h p w1)) = mem (world_of (aurora_free h p w2))"
    and "result (aurora_realloc h p n w1) = result (aurora_realloc h p n w2)"
    and "mem (world_of (aurora_realloc h p n w1)) = mem (world_of (aurora_realloc h p n w2))"
    using c by (simp_all only:)
  show "emitted w1 (aurora_alloc h n w1) = emitted w2 (aurora_alloc h n w2)"
    and "emitted w1 (aurora_free h p w1) = emitted w2 (aurora_free h p w2)"
    and "emitted w1 (aurora_realloc h p n w1) = emitted w2 (aurora_realloc h p n w2)"
    by (simp_all add: emitted_def aurora_alloc_def aurora_free_def aurora_realloc_def c_malloc_def
          c_free_def c_realloc_def split: prod.splits)
next
  assume "same_str msg1 msg2 \<and> same_str file1 file2"
  then have a: "same_str msg1 msg2" and b: "same_str file1 file2"
    by simp_all
  note c = panic_obs_cong [OF a b, of h line w1 w2]
  show "result (aurora_panic h msg1 file1 line w1) = result (aurora_panic h msg2 file2 line w2)"
    and "emitted w1 (aurora_panic h msg1 file1 line w1) =
         emitted w2 (aurora_panic h msg2 file2 line w2)"
    using c by (simp_all only:)
qed

text \<open>
  Two calls that differ in the memory behind the terminator, in the host and in what the
  streams already hold.
\<close>

theorem runtime_deterministic_witness:
  "same_str (Some (''ab'' @ NUL # ''junk'')) (Some (''ab'' @ [NUL])) \<and>
   mem world0 = mem (world0\<lparr>out := ''xyz'', err := ''e''\<rparr>) \<and>
   same_str None None \<and>
   same_str (Some (''x.au'' @ NUL # ''zz'')) (Some ''x.au'') \<and>
   emitted world0 (aurora_println ref_host (Some (''ab'' @ NUL # ''junk'')) world0) =
     emitted (world0\<lparr>out := ''xyz'', err := ''e''\<rparr>)
       (aurora_println strict_host (Some (''ab'' @ [NUL])) (world0\<lparr>out := ''xyz'', err := ''e''\<rparr>)) \<and>
   emitted world0 (aurora_println ref_host (Some (''ab'' @ NUL # ''junk'')) world0) =
     (''ab\<newline>'', []) \<and>
   result (aurora_alloc ref_host 16 world0) =
     result (aurora_alloc ref_host 16 (world0\<lparr>out := ''xyz'', err := ''e''\<rparr>)) \<and>
   result (aurora_alloc ref_host 16 world0) = Inl 16 \<and>
   emitted world0 (aurora_panic ref_host None (Some (''x.au'' @ NUL # ''zz'')) 42 world0) =
     emitted (world0\<lparr>out := ''xyz'', err := ''e''\<rparr>)
       (aurora_panic ref_host None (Some ''x.au'') 42 (world0\<lparr>out := ''xyz'', err := ''e''\<rparr>))"
proof -
  let ?s1 = "Some (''ab'' @ NUL # ''junk'')" and ?s2 = "Some (''ab'' @ [NUL])"
  let ?f1 = "Some (''x.au'' @ NUL # ''zz'')" and ?f2 = "Some ''x.au''"
  let ?w2 = "world0\<lparr>out := ''xyz'', err := ''e''\<rparr>"
  have s: "same_str ?s1 ?s2" and f: "same_str ?f1 ?f2" and n: "same_str None None"
    by (simp_all add: same_str_def bytes_of_def NUL_def)
  have m: "mem world0 = mem ?w2"
    by simp
  have e1: "emitted world0 (aurora_println ref_host ?s1 world0) = (''ab\<newline>'', [])"
    by (simp add: emitted_def aurora_println_def c_printf_def c_fprintf_def bytes_of_def NUL_def
          world0_def)
  have e2: "result (aurora_alloc ref_host 16 world0) = Inl 16"
    by (simp add: aurora_alloc_def c_malloc_def ref_host_def ref_malloc_def world0_def
          heap0_def ref_limit_def Let_def)
  show ?thesis
    using s f n m e1 e2
      runtime_deterministic [where ?s1.0 = ?s1 and ?s2.0 = ?s2 and ?h1.0 = ref_host
        and ?h2.0 = strict_host and ?w1.0 = world0 and ?w2.0 = ?w2 and h = ref_host and n = 16
        and ?msg1.0 = None and ?msg2.0 = None and ?file1.0 = ?f1 and ?file2.0 = ?f2
        and line = 42]
    by (simp only: simp_thms)
qed

end
